theory Spec2Isabelle
  imports Main "HOL-Library.AList"
begin

section \<open>shared/schema.ts: the records\<close>

text \<open>
  A row of the \<open>broadcasts\<close> table. The field \<open>id\<close> is written \<open>id_field\<close> (the name
  \<open>id\<close> is the identity function of HOL). JavaScript numbers are modelled as \<open>int\<close>,
  a \<open>Date\<close> as its number of milliseconds.
\<close>

record Broadcast =
  id_field :: int
  roomId :: string
  title :: string
  isActive :: bool
  listenerCount :: int
  audioQuality :: string
  createdAt :: int

text \<open>
  \<open>InsertBroadcast\<close> is the type of \<open>insertBroadcastSchema\<close>: the table's columns without
  \<open>id\<close> and \<open>createdAt\<close>. The columns declared \<open>notNull\<close> without a default (\<open>roomId\<close>,
  \<open>title\<close>) are required, the columns with a default are optional.
\<close>

record InsertBroadcast =
  i_roomId :: string
  i_title :: string
  i_isActive :: "bool option"
  i_listenerCount :: "int option"
  i_audioQuality :: "string option"

text \<open>\<open>Partial<Broadcast>\<close>: every field of a Broadcast, each one optional.\<close>

record PartialBroadcast =
  u_id :: "int option"
  u_roomId :: "string option"
  u_title :: "string option"
  u_isActive :: "bool option"
  u_listenerCount :: "int option"
  u_audioQuality :: "string option"
  u_createdAt :: "int option"

text \<open>
  A request body of \<open>POST /api/broadcasts\<close> before validation: any of the fields of the
  insert schema may be missing.
\<close>

record BroadcastBody =
  r_roomId :: "string option"
  r_title :: "string option"
  r_isActive :: "bool option"
  r_listenerCount :: "int option"
  r_audioQuality :: "string option"

text \<open>
  \<open>insertBroadcastSchema.parse\<close>: throws (here \<open>None\<close>) when a required field is missing.
\<close>

definition insertBroadcastSchema_parse :: "BroadcastBody \<Rightarrow> InsertBroadcast option" where
  "insertBroadcastSchema_parse body =
     (case r_roomId body of
        None \<Rightarrow> None
      | Some r \<Rightarrow>
          (case r_title body of
             None \<Rightarrow> None
           | Some t \<Rightarrow>
               Some \<lparr>i_roomId = r, i_title = t, i_isActive = r_isActive body,
                     i_listenerCount = r_listenerCount body,
                     i_audioQuality = r_audioQuality body\<rparr>))"

datatype msg_type = JoinRoom | LeaveRoom | Offer | Answer | IceCandidate | RoomUpdate

text \<open>
  The field \<open>data?: any\<close> of a message: the relay builds the \<open>RoomUpdate\<close> object
  \<open>{listenerCount, isActive}\<close> itself and treats everything else as opaque.
\<close>

datatype payload = Opaque string | RoomUpdateData int bool

record WebSocketMessage =
  m_type :: msg_type
  m_roomId :: "string option"
  m_data :: "payload option"
  m_sessionId :: "string option"

section \<open>server/storage.ts: MemStorage\<close>

text \<open>
  \<open>broadcasts\<close> is a JavaScript \<open>Map<number, Broadcast>\<close>: it iterates in insertion order,
  \<open>set\<close> on a key already present replaces the value in place and \<open>set\<close> on a new key
  appends, which is \<open>AList.update\<close>; \<open>get\<close> is \<open>map_of\<close>. The listener table of
  MemStorage is not read by any route and is left out.
\<close>

record MemStorage =
  broadcasts :: "(int \<times> Broadcast) list"
  currentBroadcastId :: int

definition new_MemStorage :: MemStorage where
  "new_MemStorage = \<lparr>broadcasts = [], currentBroadcastId = 1\<rparr>"

text \<open>\<open>createBroadcast\<close>; the clock read by \<open>new Date()\<close> is the argument \<open>now\<close>.\<close>

definition createBroadcast :: "int \<Rightarrow> InsertBroadcast \<Rightarrow> MemStorage \<Rightarrow> Broadcast \<times> MemStorage" where
  "createBroadcast now insertBroadcast st =
     (let i = currentBroadcastId st;
          broadcast =
            \<lparr>id_field = i,
             roomId = i_roomId insertBroadcast,
             title = i_title insertBroadcast,
             isActive = (case i_isActive insertBroadcast of None \<Rightarrow> True | Some a \<Rightarrow> a),
             listenerCount = (case i_listenerCount insertBroadcast of None \<Rightarrow> 0 | Some n \<Rightarrow> n),
             audioQuality = (case i_audioQuality insertBroadcast of None \<Rightarrow> ''high'' | Some q \<Rightarrow> q),
             createdAt = now\<rparr>
      in (broadcast,
          st\<lparr>broadcasts := AList.update i broadcast (broadcasts st),
             currentBroadcastId := i + 1\<rparr>))"

definition getBroadcast :: "int \<Rightarrow> MemStorage \<Rightarrow> Broadcast option" where
  "getBroadcast i st = map_of (broadcasts st) i"

definition getBroadcastByRoomId :: "string \<Rightarrow> MemStorage \<Rightarrow> Broadcast option" where
  "getBroadcastByRoomId r st = find (\<lambda>broadcast. roomId broadcast = r) (map snd (broadcasts st))"

text \<open>The object spread \<open>{ ...broadcast, ...updates }\<close>: a field of \<open>updates\<close> that is present wins.\<close>

definition spread :: "Broadcast \<Rightarrow> PartialBroadcast \<Rightarrow> Broadcast" where
  "spread broadcast updates =
     \<lparr>id_field = (case u_id updates of None \<Rightarrow> id_field broadcast | Some v \<Rightarrow> v),
      roomId = (case u_roomId updates of None \<Rightarrow> roomId broadcast | Some v \<Rightarrow> v),
      title = (case u_title updates of None \<Rightarrow> title broadcast | Some v \<Rightarrow> v),
      isActive = (case u_isActive updates of None \<Rightarrow> isActive broadcast | Some v \<Rightarrow> v),
      listenerCount = (case u_listenerCount updates of None \<Rightarrow> listenerCount broadcast | Some v \<Rightarrow> v),
      audioQuality = (case u_audioQuality updates of None \<Rightarrow> audioQuality broadcast | Some v \<Rightarrow> v),
      createdAt = (case u_createdAt updates of None \<Rightarrow> createdAt broadcast | Some v \<Rightarrow> v)\<rparr>"

definition updateBroadcast :: "int \<Rightarrow> PartialBroadcast \<Rightarrow> MemStorage \<Rightarrow> Broadcast option \<times> MemStorage" where
  "updateBroadcast i updates st =
     (case map_of (broadcasts st) i of
        None \<Rightarrow> (None, st)
      | Some broadcast \<Rightarrow>
          (let updated = spread broadcast updates
           in (Some updated, st\<lparr>broadcasts := AList.update i updated (broadcasts st)\<rparr>)))"

definition deleteBroadcast :: "int \<Rightarrow> MemStorage \<Rightarrow> bool \<times> MemStorage" where
  "deleteBroadcast i st =
     (i \<in> set (map fst (broadcasts st)), st\<lparr>broadcasts := AList.delete i (broadcasts st)\<rparr>)"

definition getActiveBroadcasts :: "MemStorage \<Rightarrow> Broadcast list" where
  "getActiveBroadcasts st = filter isActive (map snd (broadcasts st))"

definition updateListenerCount :: "int \<Rightarrow> int \<Rightarrow> MemStorage \<Rightarrow> MemStorage" where
  "updateListenerCount broadcastId n st =
     (case map_of (broadcasts st) broadcastId of
        None \<Rightarrow> st
      | Some broadcast \<Rightarrow>
          st\<lparr>broadcasts := AList.update broadcastId (broadcast\<lparr>listenerCount := n\<rparr>) (broadcasts st)\<rparr>)"

section \<open>server/routes.ts: the REST routes\<close>

datatype response = Json Broadcast | Status nat string

definition post_broadcasts :: "int \<Rightarrow> BroadcastBody \<Rightarrow> MemStorage \<Rightarrow> response \<times> MemStorage" where
  "post_broadcasts now body st =
     (case insertBroadcastSchema_parse body of
        None \<Rightarrow> (Status 400 ''Invalid broadcast data'', st)
      | Some broadcastData \<Rightarrow>
          (case createBroadcast now broadcastData st of
             (broadcast, st') \<Rightarrow> (Json broadcast, st')))"

definition get_broadcast_by_room :: "string \<Rightarrow> MemStorage \<Rightarrow> response" where
  "get_broadcast_by_room r st =
     (case getBroadcastByRoomId r st of
        None \<Rightarrow> Status 404 ''Broadcast not found''
      | Some broadcast \<Rightarrow> Json broadcast)"

definition patch_broadcasts :: "int \<Rightarrow> PartialBroadcast \<Rightarrow> MemStorage \<Rightarrow> response \<times> MemStorage" where
  "patch_broadcasts i updates st =
     (case updateBroadcast i updates st of
        (None, st') \<Rightarrow> (Status 404 ''Broadcast not found'', st')
      | (Some broadcast, st') \<Rightarrow> (Json broadcast, st'))"

section \<open>server/routes.ts: the WebSocket relay\<close>

text \<open>
  A connection handle is a number. The server state holds the storage, the table \<open>rooms\<close>
  (a \<open>Map<string, Set<WebSocket>>\<close>; a Set is a list without repetition, in insertion
  order) and, per connection, the two fields of the socket object the handlers read:
  \<open>ws.roomId\<close> and \<open>ws.readyState\<close>.
\<close>

type_synonym conn = nat

datatype readyState = CONNECTING | OPEN | CLOSING | CLOSED

record server =
  storage :: MemStorage
  rooms :: "string \<Rightarrow> conn list option"
  ws_roomId :: "conn \<Rightarrow> string option"
  ws_readyState :: "conn \<Rightarrow> readyState"

definition init_server :: server where
  "init_server =
     \<lparr>storage = new_MemStorage, rooms = (\<lambda>r. None),
      ws_roomId = (\<lambda>c. None), ws_readyState = (\<lambda>c. CONNECTING)\<rparr>"

definition set_add :: "'a \<Rightarrow> 'a list \<Rightarrow> 'a list" where
  "set_add x xs = (if x \<in> set xs then xs else xs @ [x])"

definition set_delete :: "'a \<Rightarrow> 'a list \<Rightarrow> 'a list" where
  "set_delete x xs = removeAll x xs"

text \<open>The members of a room, and \<open>size\<close>: no members when the table has no entry.\<close>

definition room_clients :: "server \<Rightarrow> string \<Rightarrow> conn list" where
  "room_clients s r = (case rooms s r of None \<Rightarrow> [] | Some roomClients \<Rightarrow> roomClients)"

definition room_size :: "server \<Rightarrow> string \<Rightarrow> nat" where
  "room_size s r = length (room_clients s r)"

text \<open>
  \<open>broadcastToRoom\<close> returns the list of \<open>client.send\<close> calls it makes, as pairs of the
  receiving connection and the message. \<open>JSON.stringify(message)\<close> is the message itself
  here: the text on the wire is not modelled.
\<close>

definition broadcastToRoom ::
  "string \<Rightarrow> WebSocketMessage \<Rightarrow> conn option \<Rightarrow> server \<Rightarrow> (conn \<times> WebSocketMessage) list" where
  "broadcastToRoom r message excludeWs s =
     (case rooms s r of
        None \<Rightarrow> []
      | Some roomClients \<Rightarrow>
          map (\<lambda>client. (client, message))
            (filter (\<lambda>client. Some client \<noteq> excludeWs \<and> ws_readyState s client = OPEN)
               roomClients))"

definition room_update :: "int \<Rightarrow> bool \<Rightarrow> WebSocketMessage" where
  "room_update n active =
     \<lparr>m_type = RoomUpdate, m_roomId = None, m_data = Some (RoomUpdateData n active),
      m_sessionId = None\<rparr>"

text \<open>
  The case \<open>'join-room'\<close>. \<open>if (data.roomId)\<close> is false for a missing and for an empty
  roomId.
\<close>

definition join_room :: "conn \<Rightarrow> WebSocketMessage \<Rightarrow> server \<Rightarrow> server \<times> (conn \<times> WebSocketMessage) list" where
  "join_room ws data s =
     (case m_roomId data of
        None \<Rightarrow> (s, [])
      | Some r \<Rightarrow>
          if r = [] then (s, [])
          else
            (let s1 = s\<lparr>ws_roomId := (ws_roomId s)(ws := Some r)\<rparr>;
                 s2 = (if rooms s1 r = None then s1\<lparr>rooms := (rooms s1)(r := Some [])\<rparr> else s1);
                 s3 = s2\<lparr>rooms := (rooms s2)(r := Some (set_add ws (room_clients s2 r)))\<rparr>
             in case getBroadcastByRoomId r (storage s3) of
                  None \<Rightarrow> (s3, [])
                | Some broadcast \<Rightarrow>
                    (let n = int (room_size s3 r);
                         s4 = s3\<lparr>storage := updateListenerCount (id_field broadcast) n (storage s3)\<rparr>
                     in (s4, broadcastToRoom r (room_update n (isActive broadcast)) None s4))))"

text \<open>The case \<open>'leave-room'\<close>.\<close>

definition leave_room :: "conn \<Rightarrow> server \<Rightarrow> server \<times> (conn \<times> WebSocketMessage) list" where
  "leave_room ws s =
     (case ws_roomId s ws of
        None \<Rightarrow> (s, [])
      | Some r \<Rightarrow>
          if r \<noteq> [] \<and> rooms s r \<noteq> None then
            (let s1 = s\<lparr>rooms := (rooms s)(r := Some (set_delete ws (room_clients s r)))\<rparr>
             in case getBroadcastByRoomId r (storage s1) of
                  None \<Rightarrow> (s1, [])
                | Some broadcast \<Rightarrow>
                    (let n = int (room_size s1 r);
                         s2 = s1\<lparr>storage := updateListenerCount (id_field broadcast) n (storage s1)\<rparr>
                     in (s2, broadcastToRoom r (room_update n (isActive broadcast)) None s2)))
          else (s, []))"

text \<open>The cases \<open>'offer'\<close>, \<open>'answer'\<close> and \<open>'ice-candidate'\<close>.\<close>

definition signaling :: "conn \<Rightarrow> WebSocketMessage \<Rightarrow> server \<Rightarrow> server \<times> (conn \<times> WebSocketMessage) list" where
  "signaling ws data s =
     (case ws_roomId s ws of
        None \<Rightarrow> (s, [])
      | Some r \<Rightarrow> if r = [] then (s, []) else (s, broadcastToRoom r data (Some ws) s))"

text \<open>The handler of \<open>'message'\<close>: the switch on \<open>data.type\<close>, which has no default case.\<close>

definition on_message :: "conn \<Rightarrow> WebSocketMessage \<Rightarrow> server \<Rightarrow> server \<times> (conn \<times> WebSocketMessage) list" where
  "on_message ws data s =
     (case m_type data of
        JoinRoom \<Rightarrow> join_room ws data s
      | LeaveRoom \<Rightarrow> leave_room ws s
      | Offer \<Rightarrow> signaling ws data s
      | Answer \<Rightarrow> signaling ws data s
      | IceCandidate \<Rightarrow> signaling ws data s
      | RoomUpdate \<Rightarrow> (s, []))"

text \<open>The handler of \<open>'close'\<close>.\<close>

definition on_close :: "conn \<Rightarrow> server \<Rightarrow> server \<times> (conn \<times> WebSocketMessage) list" where
  "on_close ws s =
     (case ws_roomId s ws of
        None \<Rightarrow> (s, [])
      | Some r \<Rightarrow>
          if r \<noteq> [] \<and> rooms s r \<noteq> None then
            (let s1 = s\<lparr>rooms := (rooms s)(r := Some (set_delete ws (room_clients s r)))\<rparr>
             in case getBroadcastByRoomId r (storage s1) of
                  None \<Rightarrow> (s1, [])
                | Some broadcast \<Rightarrow>
                    (let n = int (room_size s1 r);
                         s2 = s1\<lparr>storage := updateListenerCount (id_field broadcast) n (storage s1)\<rparr>
                     in (s2, broadcastToRoom r (room_update n (isActive broadcast)) None s2)))
          else (s, []))"

section \<open>The events the server reacts to\<close>

text \<open>
  What the environment does around the handlers: a new socket is OPEN and has no roomId;
  only an OPEN socket delivers messages; a socket is CLOSED when its \<open>'close'\<close> handler
  runs. Each handler runs to its end before the next event.
\<close>

datatype event =
    Connection conn
  | Message conn WebSocketMessage
  | Close conn
  | Post int BroadcastBody
  | Patch int PartialBroadcast

definition socket_closed :: "conn \<Rightarrow> server \<Rightarrow> server" where
  "socket_closed ws s = s\<lparr>ws_readyState := (ws_readyState s)(ws := CLOSED)\<rparr>"

fun step :: "event \<Rightarrow> server \<Rightarrow> server \<times> (conn \<times> WebSocketMessage) list" where
  "step (Connection ws) s =
     (if ws_readyState s ws = CONNECTING
      then (s\<lparr>ws_readyState := (ws_readyState s)(ws := OPEN)\<rparr>, [])
      else (s, []))"
| "step (Message ws data) s =
     (if ws_readyState s ws = OPEN then on_message ws data s else (s, []))"
| "step (Close ws) s =
     (if ws_readyState s ws = OPEN then on_close ws (socket_closed ws s) else (s, []))"
| "step (Post now body) s =
     (s\<lparr>storage := snd (post_broadcasts now body (storage s))\<rparr>, [])"
| "step (Patch i updates) s =
     (s\<lparr>storage := snd (patch_broadcasts i updates (storage s))\<rparr>, [])"

definition join_msg :: "string \<Rightarrow> WebSocketMessage" where
  "join_msg r = \<lparr>m_type = JoinRoom, m_roomId = Some r, m_data = None, m_sessionId = None\<rparr>"

definition leave_msg :: WebSocketMessage where
  "leave_msg = \<lparr>m_type = LeaveRoom, m_roomId = None, m_data = None, m_sessionId = None\<rparr>"

definition offer_msg :: "string \<Rightarrow> string \<Rightarrow> WebSocketMessage" where
  "offer_msg r sdp =
     \<lparr>m_type = Offer, m_roomId = Some r, m_data = Some (Opaque sdp), m_sessionId = None\<rparr>"

definition create_body :: "string \<Rightarrow> string \<Rightarrow> BroadcastBody" where
  "create_body r t =
     \<lparr>r_roomId = Some r, r_title = Some t, r_isActive = None, r_listenerCount = None,
      r_audioQuality = None\<rparr>"

definition no_updates :: PartialBroadcast where
  "no_updates =
     \<lparr>u_id = None, u_roomId = None, u_title = None, u_isActive = None,
      u_listenerCount = None, u_audioQuality = None, u_createdAt = None\<rparr>"

fun run :: "event list \<Rightarrow> server \<Rightarrow> server" where
  "run [] s = s"
| "run (e # es) s = run es (fst (step e s))"

section \<open>Scenarios\<close>

text \<open>Concrete runs of the server, from its initial state, used below.\<close>

definition one_broadcast :: MemStorage where
  "one_broadcast = snd (post_broadcasts 0 (create_body ''abc123'' ''first'') new_MemStorage)"

definition two_rooms :: server where
  "two_rooms =
     run [Connection 1, Message 1 (join_msg ''A''), Message 1 (join_msg ''B'')] init_server"

definition rekeyed :: server where
  "rekeyed =
     run [Post 0 (create_body ''r'' ''t''), Patch 1 (no_updates\<lparr>u_id := Some 2\<rparr>),
          Connection 1, Message 1 (join_msg ''r'')] init_server"

definition phantom :: server where
  "phantom =
     run [Connection 1, Connection 2, Message 2 (join_msg ''A''), Message 2 (join_msg ''B''),
          Close 2, Message 1 (join_msg ''A'')] init_server"

definition has_left :: server where
  "has_left =
     run [Connection 1, Connection 2, Message 1 (join_msg ''r''), Message 2 (join_msg ''r''),
          Message 2 leave_msg] init_server"

definition joined_once :: server where
  "joined_once =
     run [Post 0 (create_body ''r'' ''t''), Connection 1, Message 1 (join_msg ''r'')] init_server"

definition three_joined :: server where
  "three_joined =
     run [Connection 1, Connection 2, Connection 3, Message 1 (join_msg ''r''),
          Message 2 (join_msg ''r''), Message 3 (join_msg ''r'')] init_server"

definition lone_listener :: server where
  "lone_listener = run [Connection 1, Connection 2, Message 2 (join_msg ''r'')] init_server"

text \<open>
  The invariant of the broadcast table that \<open>createBroadcast\<close> establishes: the keys are
  distinct (as in any Map) and every record is stored under its own id.
\<close>

definition well_keyed :: "MemStorage \<Rightarrow> bool" where
  "well_keyed st \<longleftrightarrow>
     distinct (map fst (broadcasts st)) \<and>
     map fst (broadcasts st) = map (\<lambda>entry. id_field (snd entry)) (broadcasts st)"

section \<open>Evaluation and unfolding lemmas\<close>

lemmas scenario_defs = init_server_def new_MemStorage_def join_msg_def leave_msg_def offer_msg_def
  create_body_def no_updates_def

lemmas relay_defs = on_message_def join_room_def leave_room_def on_close_def signaling_def
  broadcastToRoom_def room_clients_def room_size_def set_add_def set_delete_def socket_closed_def
  room_update_def

lemmas storage_defs = Let_def getBroadcastByRoomId_def updateListenerCount_def post_broadcasts_def
  patch_broadcasts_def createBroadcast_def updateBroadcast_def spread_def
  insertBroadcastSchema_parse_def

lemma broadcastToRoom_clients:
  "broadcastToRoom r message ex s =
     map (\<lambda>client. (client, message))
       (filter (\<lambda>client. Some client \<noteq> ex \<and> ws_readyState s client = OPEN) (room_clients s r))"
  by (simp add: broadcastToRoom_def room_clients_def split: option.split)

lemma room_clients_rooms [simp]:
  "room_clients (s\<lparr>rooms := f\<rparr>) r = (case f r of None \<Rightarrow> [] | Some cl \<Rightarrow> cl)"
  by (simp add: room_clients_def)

lemma room_clients_other_upd [simp]:
  "room_clients (s\<lparr>storage := st\<rparr>) r = room_clients s r"
  "room_clients (s\<lparr>ws_roomId := f\<rparr>) r = room_clients s r"
  "room_clients (s\<lparr>ws_readyState := g\<rparr>) r = room_clients s r"
  by (simp_all add: room_clients_def)

lemma socket_closed_fields [simp]:
  "rooms (socket_closed c s) = rooms s"
  "storage (socket_closed c s) = storage s"
  "ws_roomId (socket_closed c s) = ws_roomId s"
  by (simp_all add: socket_closed_def)

text \<open>The join handler for a roomId that is present, in normal form.\<close>

lemma join_room_present:
  assumes "m_roomId data = Some r" and "r \<noteq> []"
  shows "join_room c data s =
     (case getBroadcastByRoomId r (storage s) of
        None \<Rightarrow>
          (s\<lparr>ws_roomId := (ws_roomId s)(c := Some r),
             rooms := (rooms s)(r := Some (set_add c (room_clients s r)))\<rparr>, [])
      | Some b \<Rightarrow>
          (s\<lparr>ws_roomId := (ws_roomId s)(c := Some r),
             rooms := (rooms s)(r := Some (set_add c (room_clients s r))),
             storage := updateListenerCount (id_field b)
                          (int (length (set_add c (room_clients s r)))) (storage s)\<rparr>,
           map (\<lambda>client. (client, room_update (int (length (set_add c (room_clients s r)))) (isActive b)))
             (filter (\<lambda>client. ws_readyState s client = OPEN) (set_add c (room_clients s r)))))"
  using assms
  by (simp add: join_room_def Let_def broadcastToRoom_clients room_size_def
      room_clients_def split: option.split)

text \<open>Both leave handlers, once their guard holds, in one normal form.\<close>

lemma leave_room_joined:
  assumes "ws_roomId s c = Some r" "r \<noteq> []" "rooms s r = Some cl"
  shows "leave_room c s =
     (case getBroadcastByRoomId r (storage s) of
        None \<Rightarrow> (s\<lparr>rooms := (rooms s)(r := Some (removeAll c cl))\<rparr>, [])
      | Some b \<Rightarrow>
          (s\<lparr>rooms := (rooms s)(r := Some (removeAll c cl)),
             storage := updateListenerCount (id_field b) (int (length (removeAll c cl))) (storage s)\<rparr>,
           map (\<lambda>client. (client, room_update (int (length (removeAll c cl))) (isActive b)))
             (filter (\<lambda>client. ws_readyState s client = OPEN) (removeAll c cl))))"
  using assms
  by (simp add: leave_room_def Let_def broadcastToRoom_clients room_size_def set_delete_def
      room_clients_def [of s] split: option.split)

lemma on_close_joined:
  assumes "ws_roomId s c = Some r" "r \<noteq> []" "rooms s r = Some cl"
  shows "on_close c s =
     (case getBroadcastByRoomId r (storage s) of
        None \<Rightarrow> (s\<lparr>rooms := (rooms s)(r := Some (removeAll c cl))\<rparr>, [])
      | Some b \<Rightarrow>
          (s\<lparr>rooms := (rooms s)(r := Some (removeAll c cl)),
             storage := updateListenerCount (id_field b) (int (length (removeAll c cl))) (storage s)\<rparr>,
           map (\<lambda>client. (client, room_update (int (length (removeAll c cl))) (isActive b)))
             (filter (\<lambda>client. ws_readyState s client = OPEN) (removeAll c cl))))"
  using assms
  by (simp add: on_close_def Let_def broadcastToRoom_clients room_size_def set_delete_def
      room_clients_def [of s] split: option.split)

lemma filter_open_after_close:
  "filter (\<lambda>client. ws_readyState (socket_closed c s) client = OPEN) (removeAll c cl) =
   filter (\<lambda>client. ws_readyState s client = OPEN) (removeAll c cl)"
  by (rule filter_cong) (auto simp: socket_closed_def)

section \<open>Creating a broadcast\<close>

text \<open>
  Claim C1 (a create request whose roomId is already held by a record fails with
  DuplicateRoom and creates nothing) against the code: \<open>createBroadcast\<close> never looks at
  the roomIds in the table. With one record for room \<open>abc123\<close> stored, a second request
  for \<open>abc123\<close> is answered with a new record, and the table then holds two records of
  that roomId.
\<close>

theorem duplicate_roomId_is_accepted:
  "post_broadcasts 1 (create_body ''abc123'' ''second'') one_broadcast =
     (Json \<lparr>id_field = 2, roomId = ''abc123'', title = ''second'', isActive = True,
            listenerCount = 0, audioQuality = ''high'', createdAt = 1\<rparr>,
      \<lparr>broadcasts =
         [(1, \<lparr>id_field = 1, roomId = ''abc123'', title = ''first'', isActive = True,
                listenerCount = 0, audioQuality = ''high'', createdAt = 0\<rparr>),
          (2, \<lparr>id_field = 2, roomId = ''abc123'', title = ''second'', isActive = True,
                listenerCount = 0, audioQuality = ''high'', createdAt = 1\<rparr>)],
       currentBroadcastId = 3\<rparr>)"
  by (simp add: one_broadcast_def scenario_defs storage_defs)

text \<open>
  Claim C7 as stated (every accepted create request yields \<open>isActive = true\<close> and
  \<open>listenerCount = 0\<close>, whatever the request holds) fails: the insert schema lets the
  request carry both fields, and \<open>createBroadcast\<close> keeps them. A request with
  \<open>isActive: false\<close> and \<open>listenerCount: 5\<close> is accepted and answered with exactly these.
\<close>

theorem create_keeps_supplied_fields:
  "fst (post_broadcasts 0
         ((create_body ''abc123'' ''t'')\<lparr>r_isActive := Some False, r_listenerCount := Some 5\<rparr>)
         new_MemStorage) =
     Json \<lparr>id_field = 1, roomId = ''abc123'', title = ''t'', isActive = False,
           listenerCount = 5, audioQuality = ''high'', createdAt = 0\<rparr>"
  by (simp add: scenario_defs storage_defs)

text \<open>
  Claim C7 as amended: the record that an accepted create request creates and returns has
  \<open>isActive = true\<close> when the request gives no \<open>isActive\<close> and \<open>listenerCount = 0\<close> when it
  gives no \<open>listenerCount\<close>; a field the request does give is stored as given. The record
  returned is the one stored under its id.
\<close>

theorem create_defaults:
  assumes "fst (post_broadcasts now body st) = Json b"
  shows "isActive b = (case r_isActive body of None \<Rightarrow> True | Some a \<Rightarrow> a) \<and>
         listenerCount b = (case r_listenerCount body of None \<Rightarrow> 0 | Some n \<Rightarrow> n) \<and>
         getBroadcast (id_field b) (snd (post_broadcasts now body st)) = Some b"
  using assms
  by (auto simp: post_broadcasts_def insertBroadcastSchema_parse_def createBroadcast_def
      getBroadcast_def Let_def update_conv' split: option.splits)

text \<open>
  Witness for C7: the request \<open>{roomId: "abc123", title: "t"}\<close> on the empty storage is
  accepted, and its record is active with no listeners.
\<close>

theorem create_defaults_witness:
  "fst (post_broadcasts 7 (create_body ''abc123'' ''t'') new_MemStorage) =
     Json \<lparr>id_field = 1, roomId = ''abc123'', title = ''t'', isActive = True,
           listenerCount = 0, audioQuality = ''high'', createdAt = 7\<rparr> \<and>
   isActive \<lparr>id_field = 1, roomId = ''abc123'', title = ''t'', isActive = True,
           listenerCount = 0, audioQuality = ''high'', createdAt = 7\<rparr> = True \<and>
   getBroadcast 1 (snd (post_broadcasts 7 (create_body ''abc123'' ''t'') new_MemStorage)) =
     Some \<lparr>id_field = 1, roomId = ''abc123'', title = ''t'', isActive = True,
           listenerCount = 0, audioQuality = ''high'', createdAt = 7\<rparr>"
  using create_defaults [of 7 "create_body ''abc123'' ''t''" new_MemStorage
     "\<lparr>id_field = 1, roomId = ''abc123'', title = ''t'', isActive = True,
           listenerCount = 0, audioQuality = ''high'', createdAt = 7\<rparr>"]
  by (simp add: scenario_defs storage_defs)

section \<open>Updating a broadcast\<close>

text \<open>
  Claim C8 (no operation changes the id of a stored record) against the code:
  \<open>updateBroadcast\<close> spreads every field of the updates over the record, the id too, and
  the PATCH route passes the request body on as it is. \<open>PATCH /api/broadcasts/1\<close> with the
  body \<open>{id: 2}\<close> leaves, under key 1, a record whose id is 2.
\<close>

theorem patch_overwrites_id:
  "patch_broadcasts 1 (no_updates\<lparr>u_id := Some 2\<rparr>) one_broadcast =
     (Json \<lparr>id_field = 2, roomId = ''abc123'', title = ''first'', isActive = True,
            listenerCount = 0, audioQuality = ''high'', createdAt = 0\<rparr>,
      \<lparr>broadcasts =
         [(1, \<lparr>id_field = 2, roomId = ''abc123'', title = ''first'', isActive = True,
                listenerCount = 0, audioQuality = ''high'', createdAt = 0\<rparr>)],
       currentBroadcastId = 2\<rparr>)"
  by (simp add: one_broadcast_def scenario_defs storage_defs)

section \<open>Room membership\<close>

text \<open>
  Claim C2 (a connection is a member of at most one room) against the code: the join
  handler overwrites \<open>ws.roomId\<close> and adds the socket to the new room, and nothing removes
  it from the old one. Connection 1 joins room A and then room B: it is in both sets, and
  when it closes only room B (its \<open>roomId\<close>) lets it go, so room A keeps a closed socket.
\<close>

theorem joined_to_two_rooms:
  "ws_roomId two_rooms 1 = Some ''B'' \<and>
   room_clients two_rooms ''A'' = [1] \<and>
   room_clients two_rooms ''B'' = [1] \<and>
   room_clients (run [Close 1] two_rooms) ''A'' = [1] \<and>
   room_clients (run [Close 1] two_rooms) ''B'' = [] \<and>
   ws_readyState (run [Close 1] two_rooms) 1 = CLOSED"
  by (simp add: two_rooms_def scenario_defs relay_defs storage_defs)

text \<open>
  Claim C6 (after leave-room the session's roomId is cleared, so a later signaling message
  of the connection is not forwarded into the room it left) against the code: no handler
  resets \<open>ws.roomId\<close>. Connections 1 and 2 join room r and 2 leaves: 2 is out of the
  membership set, its \<open>roomId\<close> is still r, and its next offer is sent to connection 1.
\<close>

theorem roomId_kept_after_leave:
  "ws_roomId has_left 2 = Some ''r'' \<and>
   room_clients has_left ''r'' = [1] \<and>
   ws_readyState has_left 2 = OPEN \<and>
   snd (step (Message 2 (offer_msg ''r'' ''sdp'')) has_left) = [(1, offer_msg ''r'' ''sdp'')]"
  by (simp add: has_left_def scenario_defs relay_defs storage_defs)

section \<open>Closing a socket and leaving a room\<close>

text \<open>
  Claim C4: for every connection and every state, the handler of \<open>'close'\<close>, run on the
  socket once it is CLOSED, leaves the same membership table and the same storage (hence
  the same listenerCount) as the handler of \<open>leave-room\<close> run on the open socket, and
  sends the same room-update messages to the same connections.
\<close>

theorem closure_equivalence:
  "rooms (fst (on_close c (socket_closed c s))) = rooms (fst (leave_room c s)) \<and>
   storage (fst (on_close c (socket_closed c s))) = storage (fst (leave_room c s)) \<and>
   snd (on_close c (socket_closed c s)) = snd (leave_room c s)"
proof (cases "ws_roomId s c")
  case None
  then show ?thesis by (simp add: on_close_def leave_room_def)
next
  case (Some r)
  show ?thesis
  proof (cases "r \<noteq> [] \<and> rooms s r \<noteq> None")
    case False
    with Some show ?thesis by (auto simp: on_close_def leave_room_def)
  next
    case True
    then obtain cl where cl: "rooms s r = Some cl" and r: "r \<noteq> []" by auto
    have closed: "ws_roomId (socket_closed c s) c = Some r" "rooms (socket_closed c s) r = Some cl"
      using Some cl by simp_all
    show ?thesis
      unfolding on_close_joined [OF closed(1) r closed(2)] leave_room_joined [OF Some r cl]
      by (simp add: filter_open_after_close split: option.split)
  qed
qed

section \<open>The listener count\<close>

text \<open>
  What \<open>updateListenerCount\<close> does to the record that \<open>getBroadcastByRoomId\<close> finds. The
  lookup by roomId finds a record at the same place of the table before and after; its id
  and its \<open>isActive\<close> are the same.
\<close>

lemma find_room_after_update:
  assumes "map_of al k = Some v" and "roomId v' = roomId v"
    and "id_field v' = id_field v" and "isActive v' = isActive v"
  shows "rel_option (\<lambda>x y. id_field x = id_field y \<and> isActive x = isActive y)
           (find (\<lambda>b. roomId b = r) (map snd (AList.update k v' al)))
           (find (\<lambda>b. roomId b = r) (map snd al))"
  using assms
proof (induction al)
  case Nil
  then show ?case by simp
next
  case (Cons p al)
  then show ?case
    by (cases "find (\<lambda>b. roomId b = r) (map snd al)") (auto split: if_splits)
qed

lemma getBroadcastByRoomId_updateListenerCount:
  "rel_option (\<lambda>x y. id_field x = id_field y \<and> isActive x = isActive y)
     (getBroadcastByRoomId r (updateListenerCount k n st)) (getBroadcastByRoomId r st)"
proof (cases "map_of (broadcasts st) k")
  case None
  then show ?thesis
    by (simp add: updateListenerCount_def option.rel_refl)
next
  case (Some v)
  then show ?thesis
    using find_room_after_update [of "broadcasts st" k v "v\<lparr>listenerCount := n\<rparr>" r]
    by (simp add: updateListenerCount_def getBroadcastByRoomId_def)
qed

lemma updateListenerCount_idem:
  "updateListenerCount k n (updateListenerCount k n st) = updateListenerCount k n st"
  by (cases "map_of (broadcasts st) k") (simp_all add: updateListenerCount_def update_conv')

text \<open>
  On a table where every record is stored under its own id, the record found for a roomId
  is the one that \<open>updateListenerCount\<close> writes to.
\<close>

lemma well_keyed_iff:
  "well_keyed st \<longleftrightarrow>
     distinct (map fst (broadcasts st)) \<and>
     (\<forall>entry\<in>set (broadcasts st). fst entry = id_field (snd entry))"
  by (simp add: well_keyed_def)

lemma find_room_own_key:
  assumes "distinct (map fst al)"
    and "\<forall>entry\<in>set al. fst entry = id_field (snd entry)"
    and "find (\<lambda>b. roomId b = r) (map snd al) = Some b"
  shows "map_of al (id_field b) = Some b \<and>
         find (\<lambda>b. roomId b = r) (map snd (AList.update (id_field b) (b\<lparr>listenerCount := n\<rparr>) al)) =
           Some (b\<lparr>listenerCount := n\<rparr>)"
  using assms
proof (induction al)
  case Nil
  then show ?case by simp
next
  case (Cons p al)
  obtain k v where p: "p = (k, v)" by (cases p)
  from Cons.prems(1) have fresh: "k \<notin> fst ` set al" and dist: "distinct (map fst al)"
    by (simp_all add: p)
  from Cons.prems(2) have own: "k = id_field v"
    and rest: "\<forall>entry\<in>set al. fst entry = id_field (snd entry)"
    by (simp_all add: p)
  show ?case
  proof (cases "roomId v = r")
    case True
    with Cons.prems(3) have "b = v" by (simp add: p)
    with True own show ?thesis by (simp add: p)
  next
    case False
    with Cons.prems(3) have found: "find (\<lambda>b. roomId b = r) (map snd al) = Some b"
      by (simp add: p)
    from Cons.IH [OF dist rest found]
    have IH: "map_of al (id_field b) = Some b"
      "find (\<lambda>b. roomId b = r) (map snd (AList.update (id_field b) (b\<lparr>listenerCount := n\<rparr>) al)) =
           Some (b\<lparr>listenerCount := n\<rparr>)"
      by simp_all
    from IH(1) have "(id_field b, b) \<in> set al" by (rule map_of_SomeD)
    then have "id_field b \<in> fst ` set al" by force
    with fresh have "k \<noteq> id_field b" by auto
    with False IH show ?thesis by (simp add: p)
  qed
qed

lemma listenerCount_refreshed:
  assumes "well_keyed st" and "getBroadcastByRoomId r st = Some b"
  shows "getBroadcastByRoomId r (updateListenerCount (id_field b) n st) =
           Some (b\<lparr>listenerCount := n\<rparr>)"
proof -
  from assms have "map_of (broadcasts st) (id_field b) = Some b \<and>
      find (\<lambda>b. roomId b = r)
        (map snd (AList.update (id_field b) (b\<lparr>listenerCount := n\<rparr>) (broadcasts st))) =
      Some (b\<lparr>listenerCount := n\<rparr>)"
    by (intro find_room_own_key) (simp_all add: well_keyed_iff getBroadcastByRoomId_def)
  then show ?thesis
    by (simp add: getBroadcastByRoomId_def updateListenerCount_def)
qed

lemma set_update_subset: "set (AList.update k v al) \<subseteq> insert (k, v) (set al)"
  by (induction al) auto

lemma well_keyed_updateListenerCount:
  assumes "well_keyed st"
  shows "well_keyed (updateListenerCount k n st)"
proof (cases "map_of (broadcasts st) k")
  case None
  with assms show ?thesis by (simp add: updateListenerCount_def)
next
  case (Some b)
  let ?al = "AList.update k (b\<lparr>listenerCount := n\<rparr>) (broadcasts st)"
  from Some have "(k, b) \<in> set (broadcasts st)" by (rule map_of_SomeD)
  with assms have own: "id_field b = k" by (auto simp: well_keyed_iff)
  have "fst entry = id_field (snd entry)" if "entry \<in> set ?al" for entry
    using that set_update_subset [of k "b\<lparr>listenerCount := n\<rparr>" "broadcasts st"] assms own
    by (auto simp: well_keyed_iff)
  moreover from assms have "distinct (map fst ?al)"
    by (simp add: well_keyed_iff distinct_update)
  ultimately show ?thesis
    using Some by (simp add: updateListenerCount_def well_keyed_iff)
qed

text \<open>
  So on such a table each of the three handlers leaves the record of the room with a
  listenerCount equal to the size of the room's membership set.
\<close>

lemma join_refreshes_listenerCount:
  assumes "well_keyed (storage s)" and "m_roomId data = Some r" and "r \<noteq> []"
    and "getBroadcastByRoomId r (storage s) = Some b"
  shows "getBroadcastByRoomId r (storage (fst (join_room c data s))) =
           Some (b\<lparr>listenerCount := int (room_size (fst (join_room c data s)) r)\<rparr>)"
  using assms listenerCount_refreshed [OF assms(1,4)]
  by (simp add: join_room_present room_size_def)

lemma leave_refreshes_listenerCount:
  assumes "well_keyed (storage s)" and "ws_roomId s c = Some r" and "r \<noteq> []"
    and "rooms s r = Some cl" and "getBroadcastByRoomId r (storage s) = Some b"
  shows "getBroadcastByRoomId r (storage (fst (leave_room c s))) =
           Some (b\<lparr>listenerCount := int (room_size (fst (leave_room c s)) r)\<rparr>) \<and>
         getBroadcastByRoomId r (storage (fst (on_close c s))) =
           Some (b\<lparr>listenerCount := int (room_size (fst (on_close c s)) r)\<rparr>)"
  using assms listenerCount_refreshed [OF assms(1,5)]
  by (simp add: leave_room_joined on_close_joined room_size_def)

text \<open>
  Claim C3 (after a join, a leave or a closure for a room with a Broadcast record, the
  record's listenerCount equals the size of the room's membership set) against the code:
  the handlers write the count to the table key \<open>broadcast.id\<close>, and after a PATCH that
  changed the id of the record no record is stored under that key. A broadcast for room r
  is created, \<open>PATCH /api/broadcasts/1\<close> with \<open>{id: 2}\<close> follows, and connection 1 joins r:
  the room holds one connection and the record of r still says 0 listeners.
\<close>

theorem listenerCount_not_refreshed:
  "getBroadcastByRoomId ''r'' (storage rekeyed) =
     Some \<lparr>id_field = 2, roomId = ''r'', title = ''t'', isActive = True,
           listenerCount = 0, audioQuality = ''high'', createdAt = 0\<rparr> \<and>
   room_clients rekeyed ''r'' = [1] \<and>
   room_size rekeyed ''r'' = 1"
  by (simp add: rekeyed_def scenario_defs relay_defs storage_defs)

section \<open>Signaling fan-out\<close>

text \<open>
  Claim C5 as stated (a signaling message of a joined connection reaches every other member
  of its room) fails: \<open>broadcastToRoom\<close> skips every socket that is not OPEN, and a room
  can hold one. Connection 2 joins room A, then room B, and closes, which leaves it in the
  set of A; connection 1 then joins A and sends an offer. Connection 2 is the other member
  of A, and the offer is sent to nobody.
\<close>

theorem closed_member_not_served:
  "ws_roomId phantom 1 = Some ''A'' \<and>
   ws_readyState phantom 1 = OPEN \<and>
   room_clients phantom ''A'' = [2, 1] \<and>
   ws_readyState phantom 2 = CLOSED \<and>
   snd (step (Message 1 (offer_msg ''A'' ''sdp'')) phantom) = []"
  by (simp add: phantom_def scenario_defs relay_defs storage_defs)

text \<open>
  Claim C5 as amended: an offer, answer or ice-candidate message of a connection whose
  session roomId is R changes nothing in the server state and is sent, as it was received,
  to exactly the members of R other than the sender whose socket is OPEN; it is never sent
  back to the sender. (The message is the parsed object: the text on the wire, which the
  relay parses and serialises again, is not modelled.)
\<close>

theorem fanout_to_open_others:
  assumes "ws_roomId s c = Some r" and "r \<noteq> []"
    and "m_type data \<in> {Offer, Answer, IceCandidate}"
  shows "fst (on_message c data s) = s \<and>
         set (snd (on_message c data s)) =
           (\<lambda>client. (client, data)) `
             {client \<in> set (room_clients s r). client \<noteq> c \<and> ws_readyState s client = OPEN}"
proof -
  from assms(3) have "on_message c data s = signaling c data s"
    by (auto simp: on_message_def)
  with assms(1,2) show ?thesis
    by (auto simp: signaling_def broadcastToRoom_clients)
qed

text \<open>
  Witness for C5: three open connections in room r; the offer of connection 1 goes to
  connections 2 and 3.
\<close>

theorem fanout_to_open_others_witness:
  "ws_roomId three_joined 1 = Some ''r'' \<and> ''r'' \<noteq> [] \<and>
   m_type (offer_msg ''r'' ''sdp'') \<in> {Offer, Answer, IceCandidate} \<and>
   fst (on_message 1 (offer_msg ''r'' ''sdp'') three_joined) = three_joined \<and>
   set (snd (on_message 1 (offer_msg ''r'' ''sdp'') three_joined)) =
     {(2, offer_msg ''r'' ''sdp''), (3, offer_msg ''r'' ''sdp'')}"
proof -
  have h1: "ws_roomId three_joined 1 = Some ''r''"
    by (simp add: three_joined_def scenario_defs relay_defs storage_defs)
  have h2: "''r'' \<noteq> []" by simp
  have h3: "m_type (offer_msg ''r'' ''sdp'') \<in> {Offer, Answer, IceCandidate}"
    by (simp add: offer_msg_def)
  have members: "room_clients three_joined ''r'' = [1, 2, 3]"
    by (simp add: three_joined_def scenario_defs relay_defs storage_defs)
  have ready: "ws_readyState three_joined 2 = OPEN" "ws_readyState three_joined 3 = OPEN"
    by (simp_all add: three_joined_def scenario_defs relay_defs storage_defs)
  have "{client \<in> set (room_clients three_joined ''r'').
          client \<noteq> 1 \<and> ws_readyState three_joined client = OPEN} = {2, 3}"
    using ready by (auto simp: members)
  with fanout_to_open_others [OF h1 h2 h3] h1 h3 show ?thesis by simp
qed

section \<open>Joining twice\<close>

lemma set_add_idem: "set_add c (set_add c xs) = set_add c xs"
  by (simp add: set_add_def)

text \<open>
  Claim C9 as stated (the second of two joins of a connection to the same room has no
  additional effect) fails for the messages: the join handler announces the room on every
  join. With a Broadcast record for room r and connection 1 already joined, a second
  join-room of connection 1 sends it another room-update.
\<close>

theorem second_join_announces:
  "ws_roomId joined_once 1 = Some ''r'' \<and>
   room_clients joined_once ''r'' = [1] \<and>
   snd (step (Message 1 (join_msg ''r'')) joined_once) = [(1, room_update 1 True)]"
  by (simp add: joined_once_def scenario_defs relay_defs storage_defs)

text \<open>
  Claim C9 as amended: processing join-room a second time for the same connection and
  roomId leaves the whole server state (membership table, session roomId, storage) as it
  was after the first time, so the size of every room still counts the connection once.
  (The second join does repeat the room-update announcement.)
\<close>

theorem second_join_keeps_state:
  "fst (join_room c data (fst (join_room c data s))) = fst (join_room c data s) \<and>
   room_size (fst (join_room c data (fst (join_room c data s)))) r =
     room_size (fst (join_room c data s)) r"
proof -
  have "fst (join_room c data (fst (join_room c data s))) = fst (join_room c data s)"
  proof (cases "m_roomId data")
    case None
    then show ?thesis by (simp add: join_room_def)
  next
    case (Some q)
    show ?thesis
    proof (cases "q = []")
      case True
      with Some show ?thesis by (simp add: join_room_def)
    next
      case False
      note unfold = join_room_present [OF Some False]
      show ?thesis
      proof (cases "getBroadcastByRoomId q (storage s)")
        case None
        then show ?thesis
          by (simp add: unfold set_add_idem)
      next
        case (Some b)
        let ?n = "int (length (set_add c (room_clients s q)))"
        from getBroadcastByRoomId_updateListenerCount [of q "id_field b" ?n "storage s"] Some
        obtain b2 where b2: "getBroadcastByRoomId q (updateListenerCount (id_field b) ?n (storage s)) = Some b2"
          and same: "id_field b2 = id_field b"
          by (auto simp: option_rel_Some2)
        show ?thesis
          by (simp add: unfold Some b2 same set_add_idem updateListenerCount_idem)
      qed
    qed
  qed
  then show ?thesis by simp
qed

section \<open>Joining a room that has no broadcast\<close>

text \<open>
  Claim C10: when connection c sends join-room for a roomId r (present, that is, not
  empty: \<open>if (data.roomId)\<close>) that no record of the storage has, c is added to the
  membership set of r, the storage is unchanged and no message is sent; and while c is
  open, a signaling message that another connection d of room r sends next is sent to c.
\<close>

theorem join_without_broadcast:
  assumes "m_type data = JoinRoom" and "m_roomId data = Some r" and "r \<noteq> []"
    and "getBroadcastByRoomId r (storage s) = None"
    and "ws_readyState s c = OPEN"
    and "d \<noteq> c" and "ws_roomId s d = Some r"
    and "m_type msg \<in> {Offer, Answer, IceCandidate}"
  shows "c \<in> set (room_clients (fst (on_message c data s)) r) \<and>
         storage (fst (on_message c data s)) = storage s \<and>
         snd (on_message c data s) = [] \<and>
         (c, msg) \<in> set (snd (on_message d msg (fst (on_message c data s))))"
proof -
  define s' where "s' = s\<lparr>ws_roomId := (ws_roomId s)(c := Some r),
                          rooms := (rooms s)(r := Some (set_add c (room_clients s r)))\<rparr>"
  have join: "on_message c data s = (s', [])"
    using assms(1-4)
    by (simp add: on_message_def join_room_present s'_def)
  have member: "c \<in> set (room_clients s' r)"
    by (simp add: s'_def set_add_def)
  have "ws_roomId s' d = Some r" "ws_readyState s' c = OPEN"
    using assms(5-7) by (simp_all add: s'_def)
  with member assms(3,6,8) have "(c, msg) \<in> set (snd (on_message d msg s'))"
    by (auto simp: on_message_def signaling_def broadcastToRoom_clients)
  with join member show ?thesis by (simp add: s'_def)
qed

text \<open>
  Witness for C10: no broadcast exists, connection 2 is in room r, connection 1 joins r
  and then receives the offer of connection 2.
\<close>

theorem join_without_broadcast_witness:
  "m_type (join_msg ''r'') = JoinRoom \<and> m_roomId (join_msg ''r'') = Some ''r'' \<and> ''r'' \<noteq> [] \<and>
   getBroadcastByRoomId ''r'' (storage lone_listener) = None \<and>
   ws_readyState lone_listener 1 = OPEN \<and> (2::nat) \<noteq> 1 \<and>
   ws_roomId lone_listener 2 = Some ''r'' \<and>
   m_type (offer_msg ''r'' ''sdp'') \<in> {Offer, Answer, IceCandidate} \<and>
   1 \<in> set (room_clients (fst (on_message 1 (join_msg ''r'') lone_listener)) ''r'') \<and>
   storage (fst (on_message 1 (join_msg ''r'') lone_listener)) = storage lone_listener \<and>
   snd (on_message 1 (join_msg ''r'') lone_listener) = [] \<and>
   (1, offer_msg ''r'' ''sdp'') \<in>
     set (snd (on_message 2 (offer_msg ''r'' ''sdp'')
                 (fst (on_message 1 (join_msg ''r'') lone_listener))))"
proof -
  have h1: "m_type (join_msg ''r'') = JoinRoom" and h2: "m_roomId (join_msg ''r'') = Some ''r''"
    by (simp_all add: join_msg_def)
  have h3: "''r'' \<noteq> []" and h6: "(2::nat) \<noteq> 1" by simp_all
  have h4: "getBroadcastByRoomId ''r'' (storage lone_listener) = None"
    and h5: "ws_readyState lone_listener 1 = OPEN"
    and h7: "ws_roomId lone_listener 2 = Some ''r''"
    by (simp_all add: lone_listener_def scenario_defs relay_defs storage_defs)
  have h8: "m_type (offer_msg ''r'' ''sdp'') \<in> {Offer, Answer, IceCandidate}"
    by (simp add: offer_msg_def)
  from join_without_broadcast [OF h1 h2 h3 h4 h5 h6 h7 h8] h1 h2 h4 h5 h7 h8
  show ?thesis by simp
qed

end
